theory Spec2Isabelle
  imports Complex_Main
begin

section \<open>Python values, errors and warnings\<close>

text \<open>
  Numbers are Python floats. They are modelled in exact arithmetic: a finite float is a
  \<open>real\<close>, and the two infinities are separate values (\<open>float('inf')\<close> is an
  argument the code tests for with \<open>np.isinf\<close>). Rounding and NaN are outside the model.
\<close>

datatype xreal = Finite real | PosInf | NegInf

text \<open>The values a caller can pass as the \<open>order\<close> argument.\<close>

datatype pyval =
    PyInt int
  | PyBool bool
  | PyFloat xreal
  | PyStr string
  | PyList "pyval list"
  | PyNone

text \<open>
  An exception is a value. \<open>ValueError\<close> carries the message template of the source and
  the values that \<open>format\<close> puts into it.
\<close>

datatype error =
    ValueError string "xreal list"
  | ZeroDivisionError
  | KeyError real
  | IndexError

text \<open>A call of \<open>log.warn\<close>: the template and the formatted values.\<close>

datatype warning = Warn string "xreal list"

definition msg_three :: string where
  "msg_three = ''Rational model requires 3 energy values corresponding to positive number of electrons!''"

definition msg_n0 :: string where
  "msg_n0 = ''Argument n0 cannot be less than one! Given n0={0}''"

definition msg_differ :: string where
  "msg_differ = ''Number of electrons should differ by one!''"

definition msg_monotonic :: string where
  "msg_monotonic = ''For rational model, the energy values for consecutive number of electrons should be monotonic! E={0}''"

definition msg_negative :: string where
  "msg_negative = ''Number of electrons cannot be negativ! n_elec={0}''"

definition msg_order :: string where
  "msg_order = ''Argument order should be an integer greater than or equal to 1.''"

definition warn_energy :: string where
  "warn_energy = ''Energy evaluated for n_elec={0} outside of interpolation region [{1}, {2}].''"

definition warn_derivative :: string where
  "warn_derivative = ''Energy derivative evaluated for n_elec={0} outside of interpolation region [{1}, {2}].''"

text \<open>Sequencing of computations that may raise.\<close>

definition bind :: "error + 'a \<Rightarrow> ('a \<Rightarrow> error + 'b) \<Rightarrow> error + 'b" where
  "bind r f = (case r of Inl e \<Rightarrow> Inl e | Inr v \<Rightarrow> f v)"

text \<open>Python's \<open>/\<close> on floats raises \<open>ZeroDivisionError\<close> when the divisor is zero.\<close>

definition truediv :: "real \<Rightarrow> real \<Rightarrow> error + real" where
  "truediv x y = (if y = 0 then Inl ZeroDivisionError else Inr (x / y))"

text \<open>\<open>xs[i]\<close> on a list, for a non-negative index.\<close>

definition getitem :: "real list \<Rightarrow> nat \<Rightarrow> error + real" where
  "getitem xs i = (if i < length xs then Inr (xs ! i) else Inl IndexError)"

text \<open>\<open>isinstance(v, int)\<close>: \<open>bool\<close> is a subclass of \<open>int\<close> in Python.\<close>

fun isinstance_int :: "pyval \<Rightarrow> bool" where
  "isinstance_int (PyInt i) = True"
| "isinstance_int (PyBool b) = True"
| "isinstance_int v = False"

text \<open>
  The integer an \<open>int\<close> instance stands for in arithmetic and comparisons
  (\<open>True\<close> is 1 and \<open>False\<close> is 0). Only used on instances of \<open>int\<close>.
\<close>

fun int_value :: "pyval \<Rightarrow> int" where
  "int_value (PyInt i) = i"
| "int_value (PyBool b) = (if b then 1 else 0)"
| "int_value v = 0"

text \<open>
  The comparisons \<open>n_elec < 0.0\<close> and \<open>lo <= n_elec <= hi\<close>. The test
  \<open>np.isinf(n_elec)\<close> is the case distinction on \<open>n_elec\<close> in the methods below.
\<close>

fun negative :: "xreal \<Rightarrow> bool" where
  "negative (Finite x) = (x < 0)"
| "negative PosInf = False"
| "negative NegInf = True"

fun between :: "real \<Rightarrow> xreal \<Rightarrow> real \<Rightarrow> bool" where
  "between lo (Finite x) hi = (lo \<le> x \<and> x \<le> hi)"
| "between lo PosInf hi = False"
| "between lo NegInf hi = False"

section \<open>The rational energy model\<close>

text \<open>
  The argument \<open>dict_energy\<close> is a Python dict from electron counts to energies, modelled
  as the list of its items; the keys of a dict are distinct.
\<close>

type_synonym dict = "(real \<times> real) list"

definition keys :: "dict \<Rightarrow> real list" where
  "keys d = map fst d"

definition lookup :: "dict \<Rightarrow> real \<Rightarrow> error + real" where
  "lookup d k = (case map_of d k of None \<Rightarrow> Inl (KeyError k) | Some v \<Rightarrow> Inr v)"

text \<open>
  The state of a \<open>RationalGlobalTool\<close>: \<open>self._params\<close>, and the attributes kept by
  the base class, \<open>self._n0\<close> and \<open>self._n_max\<close>.
\<close>

record RationalGlobalTool =
  self_params :: "real list"
  self_n0 :: real
  self_n_max :: xreal

text \<open>
  Modelled from the spec: \<open>BaseGlobalTool.__init__\<close> of chemtools/conceptual/base.py,
  which is not among the sources at hand. The spec's data model says that a model owns
  the reference count N0 and \<open>n_max\<close>; the methods of the rational model read
  \<open>self._n0\<close>. The constructor stores both; its first argument here is the value of
  \<open>self._params\<close>, which the object carries already when the base constructor runs.
\<close>

definition BaseGlobalTool_init :: "real list \<Rightarrow> dict \<Rightarrow> real \<Rightarrow> xreal \<Rightarrow> RationalGlobalTool" where
  "BaseGlobalTool_init ps dict_energy n0 n_max =
     \<lparr>self_params = ps, self_n0 = n0, self_n_max = n_max\<rparr>"

text \<open>
  \<open>RationalGlobalTool.__init__\<close>. The index \<open>[1]\<close> into the sorted keys is in range since
  the dict has three items there; the three energies are read at the sorted keys, which
  are \<open>n0 - 1\<close>, \<open>n0\<close> and \<open>n0 + 1\<close> at that point.
\<close>

definition RationalGlobalTool_init :: "dict \<Rightarrow> error + RationalGlobalTool" where
  "RationalGlobalTool_init dict_energy =
    (if length dict_energy \<noteq> 3 \<or> \<not> list_all (\<lambda>key. key \<ge> 0) (keys dict_energy)
     then Inl (ValueError msg_three [])
     else
       let n0 = sort (keys dict_energy) ! 1 in
       if n0 < 1 then Inl (ValueError msg_n0 [Finite n0])
       else if sort (keys dict_energy) \<noteq> [n0 - 1, n0, n0 + 1]
       then Inl (ValueError msg_differ [])
       else
         bind (lookup dict_energy (n0 - 1)) (\<lambda>energy_m.
         bind (lookup dict_energy n0) (\<lambda>energy_0.
         bind (lookup dict_energy (n0 + 1)) (\<lambda>energy_p.
           if \<not> (energy_m > energy_0 \<and> energy_0 \<ge> energy_p)
           then Inl (ValueError msg_monotonic [Finite energy_m, Finite energy_0, Finite energy_p])
           else
             bind (truediv (- (energy_p - 2 * energy_0 + energy_m))
                           ((n0 + 1) * energy_p - 2 * n0 * energy_0 + (n0 - 1) * energy_m))
               (\<lambda>b1.
                 let a1 = (1 + b1 * n0) * (energy_p - energy_0) + (b1 * energy_p);
                     a0 = - a1 * n0 + energy_0 * (1 + b1 * n0)
                 in Inr (BaseGlobalTool_init [a0, a1, b1] dict_energy n0 PosInf))))))"

text \<open>
  \<open>RationalGlobalTool.energy\<close>. The result is the list of warnings logged and the
  value returned or the exception raised.
\<close>

definition energy :: "RationalGlobalTool \<Rightarrow> xreal \<Rightarrow> warning list \<times> (error + real)" where
  "energy self n_elec =
    (if negative n_elec then ([], Inl (ValueError msg_negative [n_elec]))
     else
       (if \<not> between (self_n0 self - 1) n_elec (self_n0 self + 1)
        then [Warn warn_energy [n_elec, Finite (self_n0 self - 1), Finite (self_n0 self + 1)]]
        else [],
        case n_elec of
          Finite n \<Rightarrow>
            bind (getitem (self_params self) 0) (\<lambda>a0.
            bind (getitem (self_params self) 1) (\<lambda>a1.
            bind (getitem (self_params self) 2) (\<lambda>b1.
              truediv (a0 + a1 * n) (1 + b1 * n))))
        | _ \<Rightarrow>
            bind (getitem (self_params self) 1) (\<lambda>a1.
            bind (getitem (self_params self) 2) (\<lambda>b1.
              truediv a1 b1))))"

text \<open>\<open>RationalGlobalTool.energy_derivative\<close>, with the same kind of result.\<close>

definition energy_derivative ::
    "RationalGlobalTool \<Rightarrow> xreal \<Rightarrow> pyval \<Rightarrow> warning list \<times> (error + real)" where
  "energy_derivative self n_elec order =
    (if negative n_elec then ([], Inl (ValueError msg_negative [n_elec]))
     else
       (if \<not> between (self_n0 self - 1) n_elec (self_n0 self + 1)
        then [Warn warn_derivative [n_elec, Finite (self_n0 self - 1), Finite (self_n0 self + 1)]]
        else [],
        if \<not> (isinstance_int order \<and> int_value order > 0)
        then Inl (ValueError msg_order [])
        else
          case n_elec of
            Finite n \<Rightarrow>
              bind (getitem (self_params self) 2) (\<lambda>b1.
              bind (getitem (self_params self) 1) (\<lambda>a1.
              bind (getitem (self_params self) 0) (\<lambda>a0.
                truediv ((- b1) ^ nat (int_value order - 1)
                           * ((a1 - a0 * b1) * fact (nat (int_value order))))
                        ((1 + b1 * n) ^ nat (int_value order + 1)))))
          | _ \<Rightarrow> Inr 0))"

section \<open>The conditions on the input\<close>

text \<open>
  The five conditions that the constructor's checks stand for: three samples, no negative
  electron count, sorted counts one apart, a middle count of at least one, and energies
  ordered as \<open>E(n0 - 1) > E(n0) >= E(n0 + 1)\<close>.
\<close>

definition sample_count_ok :: "dict \<Rightarrow> bool" where
  "sample_count_ok d = (length d = 3)"

definition counts_nonneg :: "dict \<Rightarrow> bool" where
  "counts_nonneg d = list_all (\<lambda>key. key \<ge> 0) (keys d)"

definition unit_spaced :: "dict \<Rightarrow> bool" where
  "unit_spaced d =
     (case sort (keys d) of [km, k0, kp] \<Rightarrow> km = k0 - 1 \<and> kp = k0 + 1 | _ \<Rightarrow> False)"

definition n0_at_least_one :: "dict \<Rightarrow> bool" where
  "n0_at_least_one d = (case sort (keys d) of [km, k0, kp] \<Rightarrow> 1 \<le> k0 | _ \<Rightarrow> False)"

definition energies_ordered :: "dict \<Rightarrow> bool" where
  "energies_ordered d =
     (case sort (keys d) of
        [km, k0, kp] \<Rightarrow>
          (case (map_of d km, map_of d k0, map_of d kp) of
             (Some energy_m, Some energy_0, Some energy_p) \<Rightarrow>
               energy_m > energy_0 \<and> energy_0 \<ge> energy_p
           | _ \<Rightarrow> False)
      | _ \<Rightarrow> False)"

definition valid :: "dict \<Rightarrow> bool" where
  "valid d = (sample_count_ok d \<and> counts_nonneg d \<and> unit_spaced d \<and> n0_at_least_one d
              \<and> energies_ordered d)"

text \<open>
  A positive integer order, as the spec means it: an integer greater than zero. A
  boolean, a float (also a whole one such as \<open>1.0\<close>), a string, a list and \<open>None\<close> are not.
\<close>

fun positive_integer :: "pyval \<Rightarrow> bool" where
  "positive_integer (PyInt i) = (0 < i)"
| "positive_integer v = False"

section \<open>The grand potential derivative\<close>

text \<open>
  Modelled from the spec: \<open>grand_potential_derivative\<close>, a method of the base class in
  chemtools/conceptual/base.py, which is not among the sources at hand (only a test calls
  it). The spec: "order 1 returns \<open>-N\<close>; order >= 2 returns derivatives built from" the
  second and higher derivatives of the energy "via the standard thermodynamic identity"
  that the second derivative of the grand potential is minus one over the second
  derivative of the energy, and failures of the underlying \<open>energy_derivative\<close> call
  propagate. The spec gives no closed form for the other orders, and the result is
  \<open>None\<close> there: not determined.
\<close>

definition grand_potential_derivative ::
    "RationalGlobalTool \<Rightarrow> real \<Rightarrow> nat \<Rightarrow> (error + real) option" where
  "grand_potential_derivative self n_elec order =
     (if order = 1 then Some (Inr (- n_elec))
      else if order = 2
      then Some (bind (snd (energy_derivative self (Finite n_elec) (PyInt 2)))
                   (\<lambda>d2. truediv (- 1) d2))
      else None)"

section \<open>The local reactivity tool\<close>

text \<open>
  Modelled from the spec: the local tool (\<open>QuadraticLocalTool\<close> in the test
  chemtools/tools/test/test\_local.py), whose class is not among the sources at hand. The
  spec: the tool is given optional per-point arrays FF+ and FF- and an optional global
  tool; \<open>ff_zero = (ff_plus + ff_minus) / 2\<close> and \<open>dual_descriptor = ff_plus - ff_minus\<close>,
  "both \<open>None\<close> unless both inputs present"; "each local descriptor is the corresponding
  global scalar times the matching per-point Fukui array"; "any descriptor requiring an
  absent input (array or global tool) evaluates to \<open>None\<close> rather than failing". The
  arrays have one value per grid point and the same length. Of the global tool, the local
  tool reads the scalars that the test checks.
\<close>

record global_descriptors =
  ip :: real
  eta :: real
  nucleofugality :: real

record LocalTool =
  ff_plus :: "real list option"
  ff_minus :: "real list option"
  global_instance :: "global_descriptors option"

definition LocalTool_init ::
    "real list option \<Rightarrow> real list option \<Rightarrow> global_descriptors option \<Rightarrow> LocalTool" where
  "LocalTool_init ffp ffm g = \<lparr>ff_plus = ffp, ff_minus = ffm, global_instance = g\<rparr>"

definition ff_zero :: "LocalTool \<Rightarrow> real list option" where
  "ff_zero t =
     (case (ff_plus t, ff_minus t) of
        (Some p, Some m) \<Rightarrow> Some (map2 (\<lambda>x y. (x + y) / 2) p m)
      | _ \<Rightarrow> None)"

definition dual_descriptor :: "LocalTool \<Rightarrow> real list option" where
  "dual_descriptor t =
     (case (ff_plus t, ff_minus t) of
        (Some p, Some m) \<Rightarrow> Some (map2 (\<lambda>x y. x - y) p m)
      | _ \<Rightarrow> None)"

datatype fukui = Plus | Minus | Zero

fun fukui_array :: "fukui \<Rightarrow> LocalTool \<Rightarrow> real list option" where
  "fukui_array Plus t = ff_plus t"
| "fukui_array Minus t = ff_minus t"
| "fukui_array Zero t = ff_zero t"

definition local_descriptor ::
    "(global_descriptors \<Rightarrow> real) \<Rightarrow> fukui \<Rightarrow> LocalTool \<Rightarrow> real list option" where
  "local_descriptor scalar k t =
     (case (global_instance t, fukui_array k t) of
        (Some g, Some ff) \<Rightarrow> Some (map (\<lambda>x. scalar g * x) ff)
      | _ \<Rightarrow> None)"

definition ip_plus :: "LocalTool \<Rightarrow> real list option" where
  "ip_plus = local_descriptor ip Plus"

definition ip_minus :: "LocalTool \<Rightarrow> real list option" where
  "ip_minus = local_descriptor ip Minus"

definition ip_zero :: "LocalTool \<Rightarrow> real list option" where
  "ip_zero = local_descriptor ip Zero"

definition eta_plus :: "LocalTool \<Rightarrow> real list option" where
  "eta_plus = local_descriptor eta Plus"

definition eta_minus :: "LocalTool \<Rightarrow> real list option" where
  "eta_minus = local_descriptor eta Minus"

definition eta_zero :: "LocalTool \<Rightarrow> real list option" where
  "eta_zero = local_descriptor eta Zero"

definition nucleofugality_plus :: "LocalTool \<Rightarrow> real list option" where
  "nucleofugality_plus = local_descriptor nucleofugality Plus"

definition nucleofugality_minus :: "LocalTool \<Rightarrow> real list option" where
  "nucleofugality_minus = local_descriptor nucleofugality Minus"

definition nucleofugality_zero :: "LocalTool \<Rightarrow> real list option" where
  "nucleofugality_zero = local_descriptor nucleofugality Zero"

section \<open>Basic facts\<close>

lemma bind_Inr [simp]: "bind (Inr v) f = f v"
  by (simp add: bind_def)

lemma bind_Inl [simp]: "bind (Inl e) f = Inl e"
  by (simp add: bind_def)

lemma getitem_in_range [simp]: "i < length xs \<Longrightarrow> getitem xs i = Inr (xs ! i)"
  by (simp add: getitem_def)

lemma getitem_out_of_range [simp]: "length xs \<le> i \<Longrightarrow> getitem xs i = Inl IndexError"
  by (simp add: getitem_def)

section \<open>What the constructor does\<close>

lemma lookup_key: "k \<in> set (keys d) \<Longrightarrow> \<exists>v. lookup d k = Inr v"
  by (cases "map_of d k") (auto simp: lookup_def keys_def map_of_eq_None_iff)

lemma lookup_Inr_iff: "lookup d k = Inr v \<longleftrightarrow> map_of d k = Some v"
  by (simp add: lookup_def split: option.split)

lemma set_sorted_keys: "sort (keys d) = ks \<Longrightarrow> set (keys d) = set ks"
  using set_sort[of "\<lambda>x. x" "keys d"] by auto

lemma sorted_three:
  assumes "length d = 3"
  shows "\<exists>km k0 kp. sort (keys d) = [km, k0, kp]"
proof -
  have "length (sort (keys d)) = 3" using assms by (simp add: keys_def)
  then show ?thesis
    by (metis (no_types) length_0_conv length_Suc_conv numeral_3_eq_3)
qed

lemma valid_iff:
  "valid d \<longleftrightarrow>
     (\<exists>n0 em e0 ep. length d = 3 \<and> sort (keys d) = [n0 - 1, n0, n0 + 1] \<and> 1 \<le> n0 \<and>
         lookup d (n0 - 1) = Inr em \<and> lookup d n0 = Inr e0 \<and> lookup d (n0 + 1) = Inr ep \<and>
         em > e0 \<and> e0 \<ge> ep)"
  (is "?L \<longleftrightarrow> ?R")
proof
  assume ?L
  then have len: "length d = 3" and nn: "counts_nonneg d" and us: "unit_spaced d"
    and n1: "n0_at_least_one d" and eo: "energies_ordered d"
    by (simp_all add: valid_def sample_count_ok_def)
  from sorted_three[OF len] obtain km k0 kp where s: "sort (keys d) = [km, k0, kp]" by blast
  from us s have k: "km = k0 - 1" "kp = k0 + 1" by (simp_all add: unit_spaced_def)
  from n1 s have "1 \<le> k0" by (simp add: n0_at_least_one_def)
  moreover from eo s k obtain em e0 ep where
    "map_of d (k0 - 1) = Some em" "map_of d k0 = Some e0" "map_of d (k0 + 1) = Some ep"
    "em > e0" "e0 \<ge> ep"
    by (auto simp: energies_ordered_def split: option.splits)
  ultimately show ?R using len s k by (auto simp: lookup_Inr_iff)
next
  assume ?R
  then obtain n0 em e0 ep where h: "length d = 3" "sort (keys d) = [n0 - 1, n0, n0 + 1]" "1 \<le> n0"
    "lookup d (n0 - 1) = Inr em" "lookup d n0 = Inr e0" "lookup d (n0 + 1) = Inr ep"
    "em > e0" "e0 \<ge> ep" by blast
  have "set (keys d) = {n0 - 1, n0, n0 + 1}" using set_sorted_keys[OF h(2)] by simp
  with h(3) have "counts_nonneg d" by (auto simp: counts_nonneg_def list_all_iff)
  then show ?L using h
    by (simp add: valid_def sample_count_ok_def unit_spaced_def n0_at_least_one_def
        energies_ordered_def lookup_Inr_iff)
qed


lemma init_fit:
  assumes len: "length d = 3"
    and srt: "sort (keys d) = [n0 - 1, n0, n0 + 1]"
    and n0: "1 \<le> n0"
    and lm: "lookup d (n0 - 1) = Inr em"
    and l0: "lookup d n0 = Inr e0"
    and lp: "lookup d (n0 + 1) = Inr ep"
    and mono: "em > e0" "e0 \<ge> ep"
  shows "RationalGlobalTool_init d =
     bind (truediv (- (ep - 2 * e0 + em)) ((n0 + 1) * ep - 2 * n0 * e0 + (n0 - 1) * em))
       (\<lambda>b1. Inr \<lparr>self_params = [- ((1 + b1 * n0) * (ep - e0) + b1 * ep) * n0 + e0 * (1 + b1 * n0),
                                   (1 + b1 * n0) * (ep - e0) + b1 * ep, b1],
                   self_n0 = n0, self_n_max = PosInf\<rparr>)"
proof -
  have "set (keys d) = {n0 - 1, n0, n0 + 1}"
    using set_sorted_keys[OF srt] by simp
  with n0 have nonneg: "list_all (\<lambda>key. key \<ge> 0) (keys d)"
    by (auto simp: list_all_iff)
  have idx: "sort (keys d) ! 1 = n0" using srt by simp
  show ?thesis
    unfolding RationalGlobalTool_init_def Let_def idx
    using len nonneg n0 srt lm l0 lp mono
    by (simp add: BaseGlobalTool_init_def)
qed

lemma init_invalid:
  assumes "\<not> valid d"
  shows "\<exists>msg args. RationalGlobalTool_init d = Inl (ValueError msg args) \<and>
           (msg = msg_three \<and> (\<not> sample_count_ok d \<or> \<not> counts_nonneg d)
            \<or> msg = msg_n0 \<and> \<not> n0_at_least_one d
            \<or> msg = msg_differ \<and> \<not> unit_spaced d
            \<or> msg = msg_monotonic \<and> \<not> energies_ordered d)"
proof (cases "length d \<noteq> 3 \<or> \<not> list_all (\<lambda>key. key \<ge> 0) (keys d)")
  case True
  then show ?thesis
    by (auto simp: RationalGlobalTool_init_def sample_count_ok_def counts_nonneg_def)
next
  case False
  then have len: "length d = 3" and nn: "list_all (\<lambda>key. key \<ge> 0) (keys d)" by simp_all
  from sorted_three[OF len] obtain km k0 kp where s: "sort (keys d) = [km, k0, kp]" by blast
  then have idx: "sort (keys d) ! 1 = k0" by simp
  show ?thesis
  proof (cases "k0 < 1")
    case True
    then show ?thesis using len nn s idx
      by (auto simp: RationalGlobalTool_init_def n0_at_least_one_def)
  next
    case n0: False
    show ?thesis
    proof (cases "[km, k0, kp] = [k0 - 1, k0, k0 + 1]")
      case False
      then show ?thesis using len nn s idx n0
        by (auto simp: RationalGlobalTool_init_def unit_spaced_def)
    next
      case True
      then have s': "sort (keys d) = [k0 - 1, k0, k0 + 1]" using s by simp
      have mem: "set (keys d) = {k0 - 1, k0, k0 + 1}" using set_sorted_keys[OF s'] by simp
      obtain em where lm: "lookup d (k0 - 1) = Inr em" using lookup_key[of "k0 - 1" d] mem by auto
      obtain e0 where l0: "lookup d k0 = Inr e0" using lookup_key[of k0 d] mem by auto
      obtain ep where lp: "lookup d (k0 + 1) = Inr ep" using lookup_key[of "k0 + 1" d] mem by auto
      have bad: "\<not> (em > e0 \<and> e0 \<ge> ep)"
        using assms valid_iff[of d] len s' n0 lm l0 lp by auto
      then have "\<not> energies_ordered d"
        using s' lm l0 lp by (auto simp: energies_ordered_def lookup_Inr_iff)
      moreover have "RationalGlobalTool_init d =
          Inl (ValueError msg_monotonic [Finite em, Finite e0, Finite ep])"
        unfolding RationalGlobalTool_init_def Let_def idx
        using len nn n0 s' lm l0 lp bad by simp
      ultimately show ?thesis by blast
    qed
  qed
qed

lemma init_Inr_valid:
  assumes "RationalGlobalTool_init d = Inr m"
  shows "valid d"
proof (rule ccontr)
  assume "\<not> valid d"
  from init_invalid[OF this] assms show False by auto
qed

section \<open>The fitted parameters\<close>

lemma init_Inr_fit:
  assumes fit: "RationalGlobalTool_init d = Inr m"
    and srt: "sort (keys d) = [n0 - 1, n0, n0 + 1]"
    and lm: "lookup d (n0 - 1) = Inr em"
    and l0: "lookup d n0 = Inr e0"
    and lp: "lookup d (n0 + 1) = Inr ep"
    and b1: "b1 = - (ep - 2 * e0 + em) / ((n0 + 1) * ep - 2 * n0 * e0 + (n0 - 1) * em)"
    and a1: "a1 = (1 + b1 * n0) * (ep - e0) + b1 * ep"
    and a0: "a0 = - a1 * n0 + e0 * (1 + b1 * n0)"
  shows "(n0 + 1) * ep - 2 * n0 * e0 + (n0 - 1) * em \<noteq> 0"
    and "m = \<lparr>self_params = [a0, a1, b1], self_n0 = n0, self_n_max = PosInf\<rparr>"
    and "1 \<le> n0" and "em > e0" and "e0 \<ge> ep"
proof -
  from init_Inr_valid[OF fit] obtain n0' em' e0' ep' where
    h: "length d = 3" "sort (keys d) = [n0' - 1, n0', n0' + 1]" "1 \<le> n0'"
       "lookup d (n0' - 1) = Inr em'" "lookup d n0' = Inr e0'" "lookup d (n0' + 1) = Inr ep'"
       "em' > e0'" "e0' \<ge> ep'"
    unfolding valid_iff by blast
  from h(2) srt have [simp]: "n0' = n0" by simp
  from h lm l0 lp have [simp]: "em' = em" "e0' = e0" "ep' = ep" by simp_all
  from h show "1 \<le> n0" "em > e0" "e0 \<ge> ep" by simp_all
  have eq: "RationalGlobalTool_init d =
     bind (truediv (- (ep - 2 * e0 + em)) ((n0 + 1) * ep - 2 * n0 * e0 + (n0 - 1) * em))
       (\<lambda>b1. Inr \<lparr>self_params = [- ((1 + b1 * n0) * (ep - e0) + b1 * ep) * n0 + e0 * (1 + b1 * n0),
                                   (1 + b1 * n0) * (ep - e0) + b1 * ep, b1],
                   self_n0 = n0, self_n_max = PosInf\<rparr>)"
    using init_fit[of d n0 em e0 ep] h by simp
  show D: "(n0 + 1) * ep - 2 * n0 * e0 + (n0 - 1) * em \<noteq> 0"
    using eq fit by (auto simp: truediv_def split: if_splits)
  show "m = \<lparr>self_params = [a0, a1, b1], self_n0 = n0, self_n_max = PosInf\<rparr>"
    using eq fit D by (simp add: truediv_def a0 a1 b1)
qed

text \<open>
  C2, as amended. For every valid input triple for which the divisor
  \<open>(n0 + 1) E+ - 2 n0 E0 + (n0 - 1) E-\<close> is not zero, the construction returns a model, and
  the fitted parameters stored in \<open>params\<close> are the closed-form solution
  \<open>b1 = -(E+ - 2 E0 + E-) / ((n0 + 1) E+ - 2 n0 E0 + (n0 - 1) E-)\<close>,
  \<open>a1 = (1 + b1 n0) (E+ - E0) + b1 E+\<close> and \<open>a0 = -a1 n0 + E0 (1 + b1 n0)\<close>, in exact
  arithmetic, where \<open>E-\<close>, \<open>E0\<close> and \<open>E+\<close> are the energies at \<open>n0 - 1\<close>, \<open>n0\<close> and
  \<open>n0 + 1\<close>.
\<close>

theorem params_closed_form:
  assumes "valid d"
    and "sort (keys d) = [n0 - 1, n0, n0 + 1]"
    and "lookup d (n0 - 1) = Inr energy_m"
    and "lookup d n0 = Inr energy_0"
    and "lookup d (n0 + 1) = Inr energy_p"
    and "(n0 + 1) * energy_p - 2 * n0 * energy_0 + (n0 - 1) * energy_m \<noteq> 0"
    and "b1 = - (energy_p - 2 * energy_0 + energy_m)
               / ((n0 + 1) * energy_p - 2 * n0 * energy_0 + (n0 - 1) * energy_m)"
    and "a1 = (1 + b1 * n0) * (energy_p - energy_0) + b1 * energy_p"
    and "a0 = - a1 * n0 + energy_0 * (1 + b1 * n0)"
  shows "\<exists>m. RationalGlobalTool_init d = Inr m \<and> self_params m = [a0, a1, b1]"
proof -
  from assms(1) obtain n0' em' e0' ep' where
    h: "length d = 3" "sort (keys d) = [n0' - 1, n0', n0' + 1]" "1 \<le> n0'"
       "lookup d (n0' - 1) = Inr em'" "lookup d n0' = Inr e0'" "lookup d (n0' + 1) = Inr ep'"
       "em' > e0'" "e0' \<ge> ep'"
    unfolding valid_iff by blast
  from h(2) assms(2) have [simp]: "n0' = n0" by simp
  from h assms(3-5) have [simp]: "em' = energy_m" "e0' = energy_0" "ep' = energy_p" by simp_all
  have "RationalGlobalTool_init d =
      Inr \<lparr>self_params = [a0, a1, b1], self_n0 = n0, self_n_max = PosInf\<rparr>"
    using init_fit[of d n0 energy_m energy_0 energy_p] h assms(6)
    by (simp add: truediv_def assms(7-9))
  then show ?thesis by simp
qed

text \<open>The scenario of the tests: \<open>E(N) = (0.5 - 2.2 N) / (1 + 0.7 N)\<close> at 1, 2 and 3.\<close>

theorem params_closed_form_witness:
  "valid [(2, - 13 / 8), (3, - 61 / 31), (1, - 1)]
   \<and> sort (keys [(2, - 13 / 8), (3, - 61 / 31), (1, - 1)]) = [1, 2, 3]
   \<and> lookup [(2, - 13 / 8), (3, - 61 / 31), (1, - 1)] 1 = Inr (- 1)
   \<and> lookup [(2, - 13 / 8), (3, - 61 / 31), (1, - 1)] 2 = Inr (- 13 / 8)
   \<and> lookup [(2, - 13 / 8), (3, - 61 / 31), (1, - 1)] 3 = Inr (- 61 / 31)
   \<and> (\<exists>m. RationalGlobalTool_init [(2, - 13 / 8), (3, - 61 / 31), (1, - 1)] = Inr m
          \<and> self_params m = [1 / 2, - 11 / 5, 7 / 10])"
proof -
  let ?d = "[(2, - 13 / 8), (3, - 61 / 31), (1, - 1)] :: dict"
  have srt: "sort (keys ?d) = [2 - 1, 2, 2 + 1]" by (simp add: keys_def)
  have lm: "lookup ?d (2 - 1) = Inr (- 1)" by (simp add: lookup_def)
  have l0: "lookup ?d 2 = Inr (- 13 / 8)" by (simp add: lookup_def)
  have lp: "lookup ?d (2 + 1) = Inr (- 61 / 31)" by (simp add: lookup_def)
  have v: "valid ?d"
    unfolding valid_iff using srt lm l0 lp
    by (intro exI[of _ 2] exI[of _ "- 1"] exI[of _ "- 13 / 8"] exI[of _ "- 61 / 31"]) simp
  have D: "(2 + 1) * (- 61 / 31) - 2 * 2 * (- 13 / 8) + (2 - 1) * (- 1) \<noteq> (0::real)" by simp
  have b1: "(7 / 10 :: real) = - (- 61 / 31 - 2 * (- 13 / 8) + (- 1))
               / ((2 + 1) * (- 61 / 31) - 2 * 2 * (- 13 / 8) + (2 - 1) * (- 1))" by simp
  have a1: "(- 11 / 5 :: real) = (1 + 7 / 10 * 2) * (- 61 / 31 - (- 13 / 8)) + 7 / 10 * (- 61 / 31)"
    by simp
  have a0: "(1 / 2 :: real) = - (- 11 / 5) * 2 + (- 13 / 8) * (1 + 7 / 10 * 2)" by simp
  from params_closed_form[OF v srt lm l0 lp D b1 a1 a0] v srt lm l0 lp show ?thesis by simp
qed

text \<open>
  C2 as stated fails: the triple \<open>{2: 3, 3: 1, 4: 0}\<close> passes validation, the divisor
  \<open>4 * 0 - 6 * 1 + 2 * 3\<close> is zero, and the construction raises \<open>ZeroDivisionError\<close>: no
  model is returned and no parameters are stored.
\<close>

theorem params_zero_divisor_counterexample:
  "valid [(2, 3), (3, 1), (4, 0)]
   \<and> RationalGlobalTool_init [(2, 3), (3, 1), (4, 0)] = Inl ZeroDivisionError"
  by (simp add: valid_def sample_count_ok_def counts_nonneg_def unit_spaced_def
      n0_at_least_one_def energies_ordered_def RationalGlobalTool_init_def keys_def lookup_def
      truediv_def Let_def)

section \<open>The fit reproduces its input\<close>

lemma fit_denominators:
  fixes n0 em e0 ep b1 :: real
  assumes D: "(n0 + 1) * ep - 2 * n0 * e0 + (n0 - 1) * em \<noteq> 0"
    and b1: "b1 = - (ep - 2 * e0 + em) / ((n0 + 1) * ep - 2 * n0 * e0 + (n0 - 1) * em)"
  shows "1 + b1 * (n0 - 1) = 2 * (ep - e0) / ((n0 + 1) * ep - 2 * n0 * e0 + (n0 - 1) * em)"
    and "1 + b1 * n0 = (ep - em) / ((n0 + 1) * ep - 2 * n0 * e0 + (n0 - 1) * em)"
    and "1 + b1 * (n0 + 1) = 2 * (e0 - em) / ((n0 + 1) * ep - 2 * n0 * e0 + (n0 - 1) * em)"
  using D unfolding b1 by (simp_all add: field_simps)

lemma fit_numerators:
  fixes n0 em e0 ep a0 a1 b1 :: real
  assumes D: "(n0 + 1) * ep - 2 * n0 * e0 + (n0 - 1) * em \<noteq> 0"
    and b1: "b1 = - (ep - 2 * e0 + em) / ((n0 + 1) * ep - 2 * n0 * e0 + (n0 - 1) * em)"
    and a1: "a1 = (1 + b1 * n0) * (ep - e0) + b1 * ep"
    and a0: "a0 = - a1 * n0 + e0 * (1 + b1 * n0)"
  shows "a0 + a1 * (n0 - 1) = em * (1 + b1 * (n0 - 1))"
    and "a0 + a1 * n0 = e0 * (1 + b1 * n0)"
    and "a0 + a1 * (n0 + 1) = ep * (1 + b1 * (n0 + 1))"
proof -
  show "a0 + a1 * n0 = e0 * (1 + b1 * n0)" by (simp add: a0)
  show "a0 + a1 * (n0 + 1) = ep * (1 + b1 * (n0 + 1))"
    by (simp add: a0 a1 algebra_simps)
  have "a0 + a1 * (n0 - 1) - em * (1 + b1 * (n0 - 1)) =
        (e0 - em) + (e0 - ep) + b1 * (n0 * (2 * e0 - ep - em) + em - ep)"
    by (simp add: a0 a1 algebra_simps)
  also have "\<dots> = 0"
    using D unfolding b1 by (simp add: field_simps)
  finally show "a0 + a1 * (n0 - 1) = em * (1 + b1 * (n0 - 1))" by simp
qed

lemma energy_finite:
  assumes "self_params m = [a0, a1, b1]" "0 \<le> n"
  shows "energy m (Finite n) =
     (if self_n0 m - 1 \<le> n \<and> n \<le> self_n0 m + 1 then []
      else [Warn warn_energy [Finite n, Finite (self_n0 m - 1), Finite (self_n0 m + 1)]],
      if 1 + b1 * n = 0 then Inl ZeroDivisionError else Inr ((a0 + a1 * n) / (1 + b1 * n)))"
  using assms by (simp add: energy_def truediv_def)

text \<open>
  C1, as amended. For every energy triple that passes validation, whose energies at \<open>n0\<close>
  and \<open>n0 + 1\<close> differ and for which the divisor
  \<open>(n0 + 1) E+ - 2 n0 E0 + (n0 - 1) E-\<close> of the fit is not zero, the construction succeeds
  and \<open>energy\<close> returns the three input energies at \<open>n0 - 1\<close>, \<open>n0\<close> and \<open>n0 + 1\<close>,
  without a warning.
\<close>

theorem fit_reproduces_energies:
  assumes "valid d"
    and "sort (keys d) = [n0 - 1, n0, n0 + 1]"
    and "lookup d (n0 - 1) = Inr energy_m"
    and "lookup d n0 = Inr energy_0"
    and "lookup d (n0 + 1) = Inr energy_p"
    and "energy_0 > energy_p"
    and "(n0 + 1) * energy_p - 2 * n0 * energy_0 + (n0 - 1) * energy_m \<noteq> 0"
  shows "\<exists>m. RationalGlobalTool_init d = Inr m
           \<and> energy m (Finite (n0 - 1)) = ([], Inr energy_m)
           \<and> energy m (Finite n0) = ([], Inr energy_0)
           \<and> energy m (Finite (n0 + 1)) = ([], Inr energy_p)"
proof -
  define D where "D = (n0 + 1) * energy_p - 2 * n0 * energy_0 + (n0 - 1) * energy_m"
  define b1 where "b1 = - (energy_p - 2 * energy_0 + energy_m) / D"
  define a1 where "a1 = (1 + b1 * n0) * (energy_p - energy_0) + b1 * energy_p"
  define a0 where "a0 = - a1 * n0 + energy_0 * (1 + b1 * n0)"
  define m where "m = \<lparr>self_params = [a0, a1, b1], self_n0 = n0, self_n_max = PosInf\<rparr>"
  have D: "D \<noteq> 0" using assms(7) by (simp add: D_def)
  from assms(1) obtain n0' em' e0' ep' where
    h: "length d = 3" "sort (keys d) = [n0' - 1, n0', n0' + 1]" "1 \<le> n0'"
       "lookup d (n0' - 1) = Inr em'" "lookup d n0' = Inr e0'" "lookup d (n0' + 1) = Inr ep'"
       "em' > e0'" "e0' \<ge> ep'"
    unfolding valid_iff by blast
  from h(2) assms(2) have [simp]: "n0' = n0" by simp
  from h assms(3-5) have [simp]: "em' = energy_m" "e0' = energy_0" "ep' = energy_p" by simp_all
  have n0: "1 \<le> n0" and mono: "energy_m > energy_0" using h by simp_all
  have fit: "RationalGlobalTool_init d = Inr m"
    using init_fit[of d n0 energy_m energy_0 energy_p] h D
    by (simp add: truediv_def m_def a0_def a1_def b1_def D_def)
  have b1: "b1 = - (energy_p - 2 * energy_0 + energy_m)
       / ((n0 + 1) * energy_p - 2 * n0 * energy_0 + (n0 - 1) * energy_m)"
    by (simp add: b1_def D_def)
  note den = fit_denominators[OF assms(7) b1]
  note num = fit_numerators[OF assms(7) b1 a1_def a0_def]
  have nz: "1 + b1 * (n0 - 1) \<noteq> 0" "1 + b1 * n0 \<noteq> 0" "1 + b1 * (n0 + 1) \<noteq> 0"
    using assms(6,7) mono unfolding den by simp_all
  have ps: "self_params m = [a0, a1, b1]" and [simp]: "self_n0 m = n0" by (simp_all add: m_def)
  have "energy m (Finite (n0 - 1)) = ([], Inr energy_m)"
    using n0 nz(1) by (simp add: energy_finite[OF ps] num(1))
  moreover have "energy m (Finite n0) = ([], Inr energy_0)"
    using n0 nz(2) by (simp add: energy_finite[OF ps] num(2))
  moreover have "energy m (Finite (n0 + 1)) = ([], Inr energy_p)"
    using n0 nz(3) by (simp add: energy_finite[OF ps] num(3))
  ultimately show ?thesis using fit by blast
qed

theorem fit_reproduces_energies_witness:
  "valid [(2, - 13 / 8), (3, - 61 / 31), (1, - 1)]
   \<and> RationalGlobalTool_init [(2, - 13 / 8), (3, - 61 / 31), (1, - 1)]
       = Inr \<lparr>self_params = [1 / 2, - 11 / 5, 7 / 10], self_n0 = 2, self_n_max = PosInf\<rparr>
   \<and> energy \<lparr>self_params = [1 / 2, - 11 / 5, 7 / 10], self_n0 = 2, self_n_max = PosInf\<rparr>
        (Finite 1) = ([], Inr (- 1))
   \<and> energy \<lparr>self_params = [1 / 2, - 11 / 5, 7 / 10], self_n0 = 2, self_n_max = PosInf\<rparr>
        (Finite 2) = ([], Inr (- 13 / 8))
   \<and> energy \<lparr>self_params = [1 / 2, - 11 / 5, 7 / 10], self_n0 = 2, self_n_max = PosInf\<rparr>
        (Finite 3) = ([], Inr (- 61 / 31))"
proof -
  let ?d = "[(2, - 13 / 8), (3, - 61 / 31), (1, - 1)] :: dict"
  let ?m = "\<lparr>self_params = [1 / 2, - 11 / 5, 7 / 10], self_n0 = 2, self_n_max = PosInf\<rparr>"
  have srt: "sort (keys ?d) = [2 - 1, 2, 2 + 1]" by (simp add: keys_def)
  have lm: "lookup ?d (2 - 1) = Inr (- 1)" by (simp add: lookup_def)
  have l0: "lookup ?d 2 = Inr (- 13 / 8)" by (simp add: lookup_def)
  have lp: "lookup ?d (2 + 1) = Inr (- 61 / 31)" by (simp add: lookup_def)
  have v: "valid ?d"
    unfolding valid_iff using srt lm l0 lp
    by (intro exI[of _ 2] exI[of _ "- 1"] exI[of _ "- 13 / 8"] exI[of _ "- 61 / 31"]) simp
  have strict: "(- 13 / 8 :: real) > - 61 / 31" by simp
  have D: "(2 + 1) * (- 61 / 31) - 2 * 2 * (- 13 / 8) + (2 - 1) * (- 1) \<noteq> (0::real)" by simp
  have fit: "RationalGlobalTool_init ?d = Inr ?m"
    by (simp add: RationalGlobalTool_init_def keys_def lookup_def truediv_def
        BaseGlobalTool_init_def Let_def)
  from fit_reproduces_energies[OF v srt lm l0 lp strict D] fit v show ?thesis by simp
qed

text \<open>
  C1 as stated fails. The triple \<open>{1: 4, 2: 1, 3: 0}\<close> passes validation and the
  construction raises \<open>ZeroDivisionError\<close>: the divisor of \<open>b1\<close> is zero. The triple
  \<open>{1: 1, 2: 0, 3: 0}\<close> passes validation (the check is \<open>E(n0) >= E(n0 + 1)\<close>), a model is
  constructed, and \<open>energy(1)\<close> raises \<open>ZeroDivisionError\<close>.
\<close>

theorem fit_fails_counterexample:
  "valid [(1, 4), (2, 1), (3, 0)]
   \<and> RationalGlobalTool_init [(1, 4), (2, 1), (3, 0)] = Inl ZeroDivisionError
   \<and> valid [(1, 1), (2, 0), (3, 0)]
   \<and> RationalGlobalTool_init [(1, 1), (2, 0), (3, 0)]
       = Inr \<lparr>self_params = [0, 0, - 1], self_n0 = 2, self_n_max = PosInf\<rparr>
   \<and> energy \<lparr>self_params = [0, 0, - 1], self_n0 = 2, self_n_max = PosInf\<rparr> (Finite 1)
       = ([], Inl ZeroDivisionError)"
  by (simp add: valid_def sample_count_ok_def counts_nonneg_def unit_spaced_def
      n0_at_least_one_def energies_ordered_def RationalGlobalTool_init_def keys_def lookup_def
      truediv_def BaseGlobalTool_init_def Let_def energy_def)

section \<open>Invalid input\<close>

lemma messages_distinct: "distinct [msg_three, msg_n0, msg_differ, msg_monotonic]"
  by (simp add: msg_three_def msg_n0_def msg_differ_def msg_monotonic_def)

text \<open>
  C3, as amended. The construction raises \<open>ValueError\<close> and returns no model whenever the
  input violates one of the five conditions, and the message names a check that failed:
  one message for the sample count and the negative counts together, one for
  \<open>n0 < 1\<close>, one for the spacing and one for the order of the energies.
\<close>

theorem invalid_input_raises:
  assumes "\<not> valid d"
  shows "\<exists>msg args. RationalGlobalTool_init d = Inl (ValueError msg args) \<and>
           (msg = msg_three \<and> (\<not> sample_count_ok d \<or> \<not> counts_nonneg d)
            \<or> msg = msg_n0 \<and> \<not> n0_at_least_one d
            \<or> msg = msg_differ \<and> \<not> unit_spaced d
            \<or> msg = msg_monotonic \<and> \<not> energies_ordered d)"
  using init_invalid[OF assms] .

theorem invalid_input_raises_witness:
  "\<not> valid [(0, - 15), (1, - 72 / 5), (- 1, - 14)]
   \<and> RationalGlobalTool_init [(0, - 15), (1, - 72 / 5), (- 1, - 14)]
       = Inl (ValueError msg_three [])
   \<and> \<not> counts_nonneg [(0, - 15), (1, - 72 / 5), (- 1, - 14)]"
proof -
  let ?d = "[(0, - 15), (1, - 72 / 5), (- 1, - 14)] :: dict"
  have nv: "\<not> valid ?d" by (simp add: valid_def counts_nonneg_def keys_def)
  have r: "RationalGlobalTool_init ?d = Inl (ValueError msg_three [])"
    by (simp add: RationalGlobalTool_init_def keys_def)
  from invalid_input_raises[OF nv] r nv show ?thesis
    by (simp add: counts_nonneg_def keys_def)
qed

text \<open>
  C3 as stated fails: the error does not tell a wrong sample count from a negative electron
  count. A dict of two samples with non-negative counts and a dict of three samples with a
  negative count raise the same \<open>ValueError\<close>, since one \<open>if\<close> tests both conditions.
\<close>

theorem shared_message_counterexample:
  "RationalGlobalTool_init [(1, 0), (2, 0)] = Inl (ValueError msg_three [])
   \<and> RationalGlobalTool_init [(- 1, - 14), (0, - 15), (1, - 72 / 5)] = Inl (ValueError msg_three [])
   \<and> \<not> sample_count_ok [(1, 0), (2, 0)] \<and> counts_nonneg [(1, 0), (2, 0)]
   \<and> sample_count_ok [(- 1, - 14), (0, - 15), (1, - 72 / 5)]
   \<and> \<not> counts_nonneg [(- 1, - 14), (0, - 15), (1, - 72 / 5)]"
  by (simp add: RationalGlobalTool_init_def keys_def sample_count_ok_def counts_nonneg_def)

section \<open>The derivatives of the energy\<close>

lemma fitted_params:
  assumes "RationalGlobalTool_init d = Inr m"
  shows "\<exists>a0 a1 b1 n0. m = \<lparr>self_params = [a0, a1, b1], self_n0 = n0, self_n_max = PosInf\<rparr>
           \<and> 1 \<le> n0"
proof -
  from init_Inr_valid[OF assms] obtain n0 em e0 ep where
    h: "sort (keys d) = [n0 - 1, n0, n0 + 1]" "1 \<le> n0"
       "lookup d (n0 - 1) = Inr em" "lookup d n0 = Inr e0" "lookup d (n0 + 1) = Inr ep"
    unfolding valid_iff by blast
  from init_Inr_fit(2)[OF assms h(1,3,4,5) refl refl refl] h(2) show ?thesis by blast
qed

lemma positive_integer_accepted:
  "positive_integer order \<Longrightarrow> isinstance_int order \<and> 0 < int_value order"
  by (cases order) simp_all

lemma energy_derivative_finite:
  assumes "self_params m = [a0, a1, b1]" "0 \<le> n" "isinstance_int order \<and> 0 < int_value order"
  shows "energy_derivative m (Finite n) order =
     (if self_n0 m - 1 \<le> n \<and> n \<le> self_n0 m + 1 then []
      else [Warn warn_derivative [Finite n, Finite (self_n0 m - 1), Finite (self_n0 m + 1)]],
      if 1 + b1 * n = 0 then Inl ZeroDivisionError
      else Inr ((- b1) ^ nat (int_value order - 1) * ((a1 - a0 * b1) * fact (nat (int_value order)))
                 / (1 + b1 * n) ^ nat (int_value order + 1)))"
  using assms by (simp add: energy_derivative_def truediv_def)

text \<open>
  C4, as amended. For every fitted model, every finite \<open>n_elec >= 0\<close> and every positive
  integer order \<open>n\<close>, \<open>energy_derivative(n_elec, n)\<close> returns
  \<open>(-b1)^(n-1) (a1 - a0 b1) n! / (1 + b1 n_elec)^(n+1)\<close> when \<open>1 + b1 n_elec\<close> is not zero,
  and raises \<open>ZeroDivisionError\<close> when it is (in exact arithmetic).
\<close>

theorem energy_derivative_closed_form:
  assumes "RationalGlobalTool_init d = Inr m"
    and "0 \<le> n_elec"
    and "0 < order"
  shows "\<exists>a0 a1 b1. self_params m = [a0, a1, b1] \<and>
           snd (energy_derivative m (Finite n_elec) (PyInt order)) =
             (if 1 + b1 * n_elec = 0 then Inl ZeroDivisionError
              else Inr ((- b1) ^ nat (order - 1) * (a1 - a0 * b1) * fact (nat order)
                         / (1 + b1 * n_elec) ^ nat (order + 1)))"
proof -
  from fitted_params[OF assms(1)] obtain a0 a1 b1 where ps: "self_params m = [a0, a1, b1]"
    by auto
  have "isinstance_int (PyInt order) \<and> 0 < int_value (PyInt order)" using assms(3) by simp
  from energy_derivative_finite[OF ps assms(2) this] ps show ?thesis
    by (simp add: mult.assoc)
qed

theorem energy_derivative_closed_form_witness:
  "RationalGlobalTool_init [(2, - 13 / 8), (3, - 61 / 31), (1, - 1)]
     = Inr \<lparr>self_params = [1 / 2, - 11 / 5, 7 / 10], self_n0 = 2, self_n_max = PosInf\<rparr>
   \<and> snd (energy_derivative
        \<lparr>self_params = [1 / 2, - 11 / 5, 7 / 10], self_n0 = 2, self_n_max = PosInf\<rparr>
        (Finite 0) (PyInt 2)) = Inr (357 / 100)"
proof -
  let ?d = "[(2, - 13 / 8), (3, - 61 / 31), (1, - 1)] :: dict"
  let ?m = "\<lparr>self_params = [1 / 2, - 11 / 5, 7 / 10], self_n0 = 2, self_n_max = PosInf\<rparr>"
  have fit: "RationalGlobalTool_init ?d = Inr ?m"
    by (simp add: RationalGlobalTool_init_def keys_def lookup_def truediv_def
        BaseGlobalTool_init_def Let_def)
  have n: "(0::real) \<le> 0" and k: "(0::int) < 2" by simp_all
  from energy_derivative_closed_form[OF fit n k] obtain a0 a1 b1 where
    ps: "self_params ?m = [a0, a1, b1]" and
    r: "snd (energy_derivative ?m (Finite 0) (PyInt 2)) =
          (if 1 + b1 * 0 = 0 then Inl ZeroDivisionError
           else Inr ((- b1) ^ nat (2 - 1) * (a1 - a0 * b1) * fact (nat 2)
                      / (1 + b1 * 0) ^ nat (2 + 1)))"
    by blast
  from ps have "a0 = 1 / 2" "a1 = - 11 / 5" "b1 = 7 / 10" by simp_all
  with r fit show ?thesis by (simp add: fact_numeral)
qed

text \<open>
  C4 as stated fails at the pole of a fitted model: the model fitted to
  \<open>{4: 6, 5: 4, 6: 3}\<close> has \<open>b1 = -1/2\<close>, and its first derivative at \<open>n_elec = 2\<close> is no
  value: the call raises \<open>ZeroDivisionError\<close>.
\<close>

theorem energy_derivative_pole_counterexample:
  "RationalGlobalTool_init [(4, 6), (5, 4), (6, 3)]
     = Inr \<lparr>self_params = [- 6, 0, - 1 / 2], self_n0 = 5, self_n_max = PosInf\<rparr>
   \<and> energy_derivative \<lparr>self_params = [- 6, 0, - 1 / 2], self_n0 = 5, self_n_max = PosInf\<rparr>
        (Finite 2) (PyInt 1)
     = ([Warn warn_derivative [Finite 2, Finite 4, Finite 6]], Inl ZeroDivisionError)"
  by (simp add: RationalGlobalTool_init_def keys_def lookup_def truediv_def
      BaseGlobalTool_init_def Let_def energy_derivative_def)

section \<open>Evaluation outside the interpolation interval\<close>

text \<open>
  C5, as amended. For every fitted model and every \<open>n_elec >= 0\<close>, \<open>energy(n_elec)\<close>
  returns a value unless the divisor is zero (\<open>1 + b1 n_elec\<close> for a finite \<open>n_elec\<close>,
  \<open>b1\<close> for \<open>+inf\<close>), where it raises \<open>ZeroDivisionError\<close>. An \<open>n_elec\<close> outside
  \<open>[n0 - 1, n0 + 1]\<close> logs one warning, and no warning is logged inside. The values
  are those of exact arithmetic.
\<close>

theorem energy_returns_off_pole:
  assumes "RationalGlobalTool_init d = Inr m"
    and "\<not> negative n_elec"
  shows "\<exists>a0 a1 b1. self_params m = [a0, a1, b1] \<and>
           fst (energy m n_elec) =
             (if between (self_n0 m - 1) n_elec (self_n0 m + 1) then []
              else [Warn warn_energy [n_elec, Finite (self_n0 m - 1), Finite (self_n0 m + 1)]]) \<and>
           snd (energy m n_elec) =
             (case n_elec of
                Finite n \<Rightarrow>
                  if 1 + b1 * n = 0 then Inl ZeroDivisionError
                  else Inr ((a0 + a1 * n) / (1 + b1 * n))
              | _ \<Rightarrow> if b1 = 0 then Inl ZeroDivisionError else Inr (a1 / b1))"
proof -
  from fitted_params[OF assms(1)] obtain a0 a1 b1 where ps: "self_params m = [a0, a1, b1]"
    by auto
  have "fst (energy m n_elec) =
             (if between (self_n0 m - 1) n_elec (self_n0 m + 1) then []
              else [Warn warn_energy [n_elec, Finite (self_n0 m - 1), Finite (self_n0 m + 1)]])"
    using assms(2) by (simp add: energy_def)
  moreover have "snd (energy m n_elec) =
             (case n_elec of
                Finite n \<Rightarrow>
                  if 1 + b1 * n = 0 then Inl ZeroDivisionError
                  else Inr ((a0 + a1 * n) / (1 + b1 * n))
              | _ \<Rightarrow> if b1 = 0 then Inl ZeroDivisionError else Inr (a1 / b1))"
    using assms(2) ps by (cases n_elec) (simp_all add: energy_def truediv_def)
  ultimately show ?thesis using ps by blast
qed

theorem energy_returns_off_pole_witness:
  "RationalGlobalTool_init [(2, - 13 / 8), (3, - 61 / 31), (1, - 1)]
     = Inr \<lparr>self_params = [1 / 2, - 11 / 5, 7 / 10], self_n0 = 2, self_n_max = PosInf\<rparr>
   \<and> \<not> negative (Finite 6)
   \<and> energy \<lparr>self_params = [1 / 2, - 11 / 5, 7 / 10], self_n0 = 2, self_n_max = PosInf\<rparr>
        (Finite 6)
     = ([Warn warn_energy [Finite 6, Finite 1, Finite 3]], Inr (- 127 / 52))"
proof -
  let ?d = "[(2, - 13 / 8), (3, - 61 / 31), (1, - 1)] :: dict"
  let ?m = "\<lparr>self_params = [1 / 2, - 11 / 5, 7 / 10], self_n0 = 2, self_n_max = PosInf\<rparr>"
  have fit: "RationalGlobalTool_init ?d = Inr ?m"
    by (simp add: RationalGlobalTool_init_def keys_def lookup_def truediv_def
        BaseGlobalTool_init_def Let_def)
  have nn: "\<not> negative (Finite 6)" by simp
  from energy_returns_off_pole[OF fit nn] obtain a0 a1 b1 where
    ps: "self_params ?m = [a0, a1, b1]" and
    w: "fst (energy ?m (Finite 6)) =
          (if between (self_n0 ?m - 1) (Finite 6) (self_n0 ?m + 1) then []
           else [Warn warn_energy [Finite 6, Finite (self_n0 ?m - 1), Finite (self_n0 ?m + 1)]])" and
    r: "snd (energy ?m (Finite 6)) =
          (case Finite 6 of
             Finite n \<Rightarrow>
               if 1 + b1 * n = 0 then Inl ZeroDivisionError
               else Inr ((a0 + a1 * n) / (1 + b1 * n))
           | _ \<Rightarrow> if b1 = 0 then Inl ZeroDivisionError else Inr (a1 / b1))"
    by blast
  from ps have "a0 = 1 / 2" "a1 = - 11 / 5" "b1 = 7 / 10" by simp_all
  with r have "snd (energy ?m (Finite 6)) = Inr (- 127 / 52)" by simp
  moreover from w have "fst (energy ?m (Finite 6)) = [Warn warn_energy [Finite 6, Finite 1, Finite 3]]"
    by simp
  ultimately have "energy ?m (Finite 6) = ([Warn warn_energy [Finite 6, Finite 1, Finite 3]], Inr (- 127 / 52))"
    by (simp add: prod_eq_iff)
  with fit nn show ?thesis by simp
qed

text \<open>
  C5 as stated fails: for the model fitted to \<open>{4: 6, 5: 4, 6: 3}\<close>, \<open>energy(2)\<close> logs the
  warning and then raises \<open>ZeroDivisionError\<close>, since \<open>1 + b1 * 2 = 0\<close>.
\<close>

theorem energy_pole_counterexample:
  "RationalGlobalTool_init [(4, 6), (5, 4), (6, 3)]
     = Inr \<lparr>self_params = [- 6, 0, - 1 / 2], self_n0 = 5, self_n_max = PosInf\<rparr>
   \<and> \<not> negative (Finite 2)
   \<and> energy \<lparr>self_params = [- 6, 0, - 1 / 2], self_n0 = 5, self_n_max = PosInf\<rparr> (Finite 2)
     = ([Warn warn_energy [Finite 2, Finite 4, Finite 6]], Inl ZeroDivisionError)"
  by (simp add: RationalGlobalTool_init_def keys_def lookup_def truediv_def
      BaseGlobalTool_init_def Let_def energy_def)

section \<open>Evaluation at infinity\<close>

text \<open>
  C6, as amended. For every fitted model with \<open>b1\<close> not zero, \<open>energy\<close> at \<open>+inf\<close>
  returns \<open>a1 / b1\<close>, by the branch for infinite arguments; with \<open>b1 = 0\<close> it raises
  \<open>ZeroDivisionError\<close>. \<open>energy_derivative\<close> at \<open>+inf\<close> returns 0 for every positive
  integer order, and for the order \<open>True\<close>. The values are those of exact arithmetic.
\<close>

theorem energy_at_infinity:
  assumes "RationalGlobalTool_init d = Inr m"
    and "positive_integer order \<or> order = PyBool True"
  shows "\<exists>a0 a1 b1. self_params m = [a0, a1, b1] \<and>
           snd (energy m PosInf) = (if b1 = 0 then Inl ZeroDivisionError else Inr (a1 / b1)) \<and>
           snd (energy_derivative m PosInf order) = Inr 0"
proof -
  from fitted_params[OF assms(1)] obtain a0 a1 b1 where ps: "self_params m = [a0, a1, b1]"
    by auto
  have "snd (energy m PosInf) = (if b1 = 0 then Inl ZeroDivisionError else Inr (a1 / b1))"
    using ps by (simp add: energy_def truediv_def)
  moreover have "snd (energy_derivative m PosInf order) = Inr 0"
    using assms(2) by (auto simp: energy_derivative_def dest: positive_integer_accepted)
  ultimately show ?thesis using ps by blast
qed

theorem energy_at_infinity_witness:
  "RationalGlobalTool_init [(2, - 13 / 8), (3, - 61 / 31), (1, - 1)]
     = Inr \<lparr>self_params = [1 / 2, - 11 / 5, 7 / 10], self_n0 = 2, self_n_max = PosInf\<rparr>
   \<and> (positive_integer (PyInt 3) \<or> PyInt 3 = PyBool True)
   \<and> snd (energy \<lparr>self_params = [1 / 2, - 11 / 5, 7 / 10], self_n0 = 2, self_n_max = PosInf\<rparr>
        PosInf) = Inr (- 22 / 7)
   \<and> snd (energy_derivative
        \<lparr>self_params = [1 / 2, - 11 / 5, 7 / 10], self_n0 = 2, self_n_max = PosInf\<rparr>
        PosInf (PyInt 3)) = Inr 0"
proof -
  let ?d = "[(2, - 13 / 8), (3, - 61 / 31), (1, - 1)] :: dict"
  let ?m = "\<lparr>self_params = [1 / 2, - 11 / 5, 7 / 10], self_n0 = 2, self_n_max = PosInf\<rparr>"
  have fit: "RationalGlobalTool_init ?d = Inr ?m"
    by (simp add: RationalGlobalTool_init_def keys_def lookup_def truediv_def
        BaseGlobalTool_init_def Let_def)
  have k: "positive_integer (PyInt 3) \<or> PyInt 3 = PyBool True" by simp
  from energy_at_infinity[OF fit k] obtain a0 a1 b1 where
    ps: "self_params ?m = [a0, a1, b1]" and
    r: "snd (energy ?m PosInf) = (if b1 = 0 then Inl ZeroDivisionError else Inr (a1 / b1))" and
    z: "snd (energy_derivative ?m PosInf (PyInt 3)) = Inr 0"
    by blast
  from ps have "a1 = - 11 / 5" "b1 = 7 / 10" by simp_all
  with r have "snd (energy ?m PosInf) = Inr (- 22 / 7)" by simp
  with z fit k show ?thesis by simp
qed

text \<open>
  C6 as stated fails for energies on a straight line: the model fitted to
  \<open>{1: 2, 2: 1, 3: 0}\<close> has \<open>b1 = 0\<close> (it is \<open>E(N) = 3 - N\<close>), and \<open>energy(+inf)\<close> raises
  \<open>ZeroDivisionError\<close>.
\<close>

theorem energy_at_infinity_counterexample:
  "RationalGlobalTool_init [(1, 2), (2, 1), (3, 0)]
     = Inr \<lparr>self_params = [3, - 1, 0], self_n0 = 2, self_n_max = PosInf\<rparr>
   \<and> energy \<lparr>self_params = [3, - 1, 0], self_n0 = 2, self_n_max = PosInf\<rparr> PosInf
     = ([Warn warn_energy [PosInf, Finite 1, Finite 3]], Inl ZeroDivisionError)"
  by (simp add: RationalGlobalTool_init_def keys_def lookup_def truediv_def
      BaseGlobalTool_init_def Let_def energy_def)

section \<open>The first derivative of the grand potential\<close>

text \<open>
  C7. For every model and every \<open>N\<close>, \<open>grand_potential_derivative(N, 1)\<close> is \<open>-N\<close>.
\<close>

theorem grand_potential_first_derivative:
  "grand_potential_derivative m n_elec 1 = Some (Inr (- n_elec))"
  by (simp add: grand_potential_derivative_def)

theorem grand_potential_first_derivative_witness:
  "grand_potential_derivative
     \<lparr>self_params = [1 / 2, - 11 / 5, 7 / 10], self_n0 = 2, self_n_max = PosInf\<rparr> (7 / 5) 1
   = Some (Inr (- 7 / 5))"
  using grand_potential_first_derivative[of
      "\<lparr>self_params = [1 / 2, - 11 / 5, 7 / 10], self_n0 = 2, self_n_max = PosInf\<rparr>" "7 / 5"]
  by simp

section \<open>Invalid arguments of the evaluation\<close>

text \<open>
  C8, as amended. For every \<open>n_elec < 0\<close>, \<open>energy(n_elec)\<close> and
  \<open>energy_derivative(n_elec, order)\<close> raise \<open>ValueError\<close>, before anything is logged. For
  every other \<open>n_elec\<close>, \<open>energy_derivative(n_elec, order)\<close> raises \<open>ValueError\<close> for
  every order that is not a positive integer, except the boolean \<open>True\<close>, which is taken
  as order 1. No value is returned where an error is raised.
\<close>

theorem invalid_arguments_raise:
  "(negative n_elec \<longrightarrow>
      energy m n_elec = ([], Inl (ValueError msg_negative [n_elec])) \<and>
      energy_derivative m n_elec order = ([], Inl (ValueError msg_negative [n_elec])))
   \<and> (\<not> negative n_elec \<and> \<not> positive_integer order \<and> order \<noteq> PyBool True \<longrightarrow>
      snd (energy_derivative m n_elec order) = Inl (ValueError msg_order []))
   \<and> energy_derivative m n_elec (PyBool True) = energy_derivative m n_elec (PyInt 1)"
proof (intro conjI impI)
  assume "negative n_elec"
  then show "energy m n_elec = ([], Inl (ValueError msg_negative [n_elec]))"
    and "energy_derivative m n_elec order = ([], Inl (ValueError msg_negative [n_elec]))"
    by (simp_all add: energy_def energy_derivative_def)
next
  assume "\<not> negative n_elec \<and> \<not> positive_integer order \<and> order \<noteq> PyBool True"
  then have "\<not> negative n_elec" and "\<not> (isinstance_int order \<and> int_value order > 0)"
    by (cases order; simp)+
  then show "snd (energy_derivative m n_elec order) = Inl (ValueError msg_order [])"
    by (simp add: energy_derivative_def)
next
  show "energy_derivative m n_elec (PyBool True) = energy_derivative m n_elec (PyInt 1)"
    by (cases n_elec) (simp_all add: energy_derivative_def)
qed

theorem invalid_arguments_raise_witness:
  "negative (Finite (- 1 / 200))
   \<and> energy \<lparr>self_params = [- 6, 0, - 1 / 2], self_n0 = 5, self_n_max = PosInf\<rparr>
        (Finite (- 1 / 200)) = ([], Inl (ValueError msg_negative [Finite (- 1 / 200)]))
   \<and> energy_derivative \<lparr>self_params = [- 6, 0, - 1 / 2], self_n0 = 5, self_n_max = PosInf\<rparr>
        (Finite (- 1 / 200)) (PyInt 1) = ([], Inl (ValueError msg_negative [Finite (- 1 / 200)]))
   \<and> \<not> negative (Finite 5) \<and> \<not> positive_integer (PyFloat (Finite 1))
   \<and> PyFloat (Finite 1) \<noteq> PyBool True
   \<and> snd (energy_derivative \<lparr>self_params = [- 6, 0, - 1 / 2], self_n0 = 5, self_n_max = PosInf\<rparr>
        (Finite 5) (PyFloat (Finite 1))) = Inl (ValueError msg_order [])"
  using invalid_arguments_raise[of "Finite (- 1 / 200)"
      "\<lparr>self_params = [- 6, 0, - 1 / 2], self_n0 = 5, self_n_max = PosInf\<rparr>" "PyInt 1"]
    invalid_arguments_raise[of "Finite 5"
      "\<lparr>self_params = [- 6, 0, - 1 / 2], self_n0 = 5, self_n_max = PosInf\<rparr>" "PyFloat (Finite 1)"]
  by simp

text \<open>
  C8 as stated fails at the order \<open>True\<close>: a boolean is not a positive integer, and for the
  model fitted to \<open>{1: -1, 2: -1.625, 3: -61/31}\<close> the call \<open>energy_derivative(2, True)\<close>
  raises nothing and returns the first derivative.
\<close>

theorem boolean_order_not_rejected_counterexample:
  "RationalGlobalTool_init [(2, - 13 / 8), (3, - 61 / 31), (1, - 1)]
     = Inr \<lparr>self_params = [1 / 2, - 11 / 5, 7 / 10], self_n0 = 2, self_n_max = PosInf\<rparr>
   \<and> \<not> negative (Finite 2) \<and> \<not> positive_integer (PyBool True)
   \<and> energy_derivative
        \<lparr>self_params = [1 / 2, - 11 / 5, 7 / 10], self_n0 = 2, self_n_max = PosInf\<rparr>
        (Finite 2) (PyBool True) = ([], Inr (- 85 / 192))"
  by (simp add: RationalGlobalTool_init_def keys_def lookup_def truediv_def
      BaseGlobalTool_init_def Let_def energy_derivative_def power2_eq_square)

section \<open>Absent inputs of the local tool\<close>

lemma local_descriptor_absent:
  "global_instance t = None \<or> fukui_array k t = None \<Longrightarrow> local_descriptor scalar k t = None"
  by (auto simp: local_descriptor_def split: option.splits)

text \<open>
  C9. A local tool constructed with no inputs gives \<open>None\<close> for every descriptor, and a
  descriptor whose Fukui array or global tool is absent is \<open>None\<close>: the result is an
  optional array, never an error.
\<close>

theorem absent_input_gives_None:
  "(ff_plus t = None \<or> ff_minus t = None \<longrightarrow> ff_zero t = None \<and> dual_descriptor t = None)
   \<and> (global_instance t = None \<or> fukui_array k t = None \<longrightarrow> local_descriptor scalar k t = None)
   \<and> (t = LocalTool_init None None None \<longrightarrow>
        ff_plus t = None \<and> ff_minus t = None \<and> ff_zero t = None \<and> dual_descriptor t = None
        \<and> ip_plus t = None \<and> ip_minus t = None \<and> ip_zero t = None
        \<and> eta_plus t = None \<and> eta_minus t = None \<and> eta_zero t = None
        \<and> nucleofugality_plus t = None \<and> nucleofugality_minus t = None
        \<and> nucleofugality_zero t = None)"
proof (intro conjI impI)
  assume "ff_plus t = None \<or> ff_minus t = None"
  then show "ff_zero t = None" "dual_descriptor t = None"
    by (auto simp: ff_zero_def dual_descriptor_def split: option.splits)
next
  assume "global_instance t = None \<or> fukui_array k t = None"
  then show "local_descriptor scalar k t = None" by (rule local_descriptor_absent)
next
  assume e: "t = LocalTool_init None None None"
  then show "ff_plus t = None" "ff_minus t = None" "ff_zero t = None" "dual_descriptor t = None"
    by (simp_all add: LocalTool_init_def ff_zero_def dual_descriptor_def)
  from e have g: "global_instance t = None" by (simp add: LocalTool_init_def)
  show "ip_plus t = None" "ip_minus t = None" "ip_zero t = None"
    "eta_plus t = None" "eta_minus t = None" "eta_zero t = None"
    "nucleofugality_plus t = None" "nucleofugality_minus t = None" "nucleofugality_zero t = None"
    unfolding ip_plus_def ip_minus_def ip_zero_def eta_plus_def eta_minus_def eta_zero_def
      nucleofugality_plus_def nucleofugality_minus_def nucleofugality_zero_def
    using g by (simp_all add: local_descriptor_absent)
qed

theorem absent_input_gives_None_witness:
  "ff_minus (LocalTool_init (Some [0, 1, 2]) None None) = None
   \<and> ff_plus (LocalTool_init (Some [0, 1, 2]) None None) = Some [0, 1, 2]
   \<and> ff_zero (LocalTool_init (Some [0, 1, 2]) None None) = None
   \<and> dual_descriptor (LocalTool_init (Some [0, 1, 2]) None None) = None
   \<and> global_instance (LocalTool_init (Some [0, 1, 2]) None None) = None
   \<and> local_descriptor ip Plus (LocalTool_init (Some [0, 1, 2]) None None) = None
   \<and> ip_zero (LocalTool_init None None None) = None"
  using absent_input_gives_None[of "LocalTool_init (Some [0, 1, 2]) None None" Plus ip]
    absent_input_gives_None[of "LocalTool_init None None None" Zero ip]
  by (simp add: LocalTool_init_def)

section \<open>A boolean as the order\<close>

text \<open>
  C10, as amended. \<open>energy_derivative\<close> accepts the boolean \<open>True\<close> as order: for every
  fitted model and every finite \<open>n_elec >= 0\<close>, \<open>energy_derivative(n_elec, True)\<close> does what
  \<open>energy_derivative(n_elec, 1)\<close> does. It returns the first derivative
  \<open>(a1 - a0 b1) / (1 + b1 n_elec)^2\<close> when \<open>1 + b1 n_elec\<close> is not zero, and raises
  \<open>ZeroDivisionError\<close> when it is (in exact arithmetic).
\<close>

theorem boolean_order_accepted:
  assumes "RationalGlobalTool_init d = Inr m"
    and "0 \<le> n_elec"
  shows "energy_derivative m (Finite n_elec) (PyBool True)
           = energy_derivative m (Finite n_elec) (PyInt 1)
         \<and> (\<exists>a0 a1 b1. self_params m = [a0, a1, b1] \<and>
               snd (energy_derivative m (Finite n_elec) (PyBool True)) =
                 (if 1 + b1 * n_elec = 0 then Inl ZeroDivisionError
                  else Inr ((a1 - a0 * b1) / (1 + b1 * n_elec) ^ 2)))"
proof -
  from fitted_params[OF assms(1)] obtain a0 a1 b1 where ps: "self_params m = [a0, a1, b1]"
    by auto
  have "energy_derivative m (Finite n_elec) (PyBool True)
           = energy_derivative m (Finite n_elec) (PyInt 1)"
    by (simp add: energy_derivative_def)
  moreover have "isinstance_int (PyBool True) \<and> 0 < int_value (PyBool True)" by simp
  from energy_derivative_finite[OF ps assms(2) this]
  have "snd (energy_derivative m (Finite n_elec) (PyBool True)) =
                 (if 1 + b1 * n_elec = 0 then Inl ZeroDivisionError
                  else Inr ((a1 - a0 * b1) / (1 + b1 * n_elec) ^ 2))"
    by (simp add: numeral_2_eq_2)
  ultimately show ?thesis using ps by blast
qed

theorem boolean_order_accepted_witness:
  "RationalGlobalTool_init [(2, - 13 / 8), (3, - 61 / 31), (1, - 1)]
     = Inr \<lparr>self_params = [1 / 2, - 11 / 5, 7 / 10], self_n0 = 2, self_n_max = PosInf\<rparr>
   \<and> energy_derivative
        \<lparr>self_params = [1 / 2, - 11 / 5, 7 / 10], self_n0 = 2, self_n_max = PosInf\<rparr>
        (Finite 0) (PyBool True)
     = energy_derivative
        \<lparr>self_params = [1 / 2, - 11 / 5, 7 / 10], self_n0 = 2, self_n_max = PosInf\<rparr>
        (Finite 0) (PyInt 1)
   \<and> snd (energy_derivative
        \<lparr>self_params = [1 / 2, - 11 / 5, 7 / 10], self_n0 = 2, self_n_max = PosInf\<rparr>
        (Finite 0) (PyBool True)) = Inr (- 51 / 20)"
proof -
  let ?d = "[(2, - 13 / 8), (3, - 61 / 31), (1, - 1)] :: dict"
  let ?m = "\<lparr>self_params = [1 / 2, - 11 / 5, 7 / 10], self_n0 = 2, self_n_max = PosInf\<rparr>"
  have fit: "RationalGlobalTool_init ?d = Inr ?m"
    by (simp add: RationalGlobalTool_init_def keys_def lookup_def truediv_def
        BaseGlobalTool_init_def Let_def)
  have n: "(0::real) \<le> 0" by simp
  from boolean_order_accepted[OF fit n] obtain a0 a1 b1 where
    e: "energy_derivative ?m (Finite 0) (PyBool True) = energy_derivative ?m (Finite 0) (PyInt 1)" and
    ps: "self_params ?m = [a0, a1, b1]" and
    r: "snd (energy_derivative ?m (Finite 0) (PyBool True)) =
          (if 1 + b1 * 0 = 0 then Inl ZeroDivisionError
           else Inr ((a1 - a0 * b1) / (1 + b1 * 0) ^ 2))"
    by blast
  from ps have "a0 = 1 / 2" "a1 = - 11 / 5" "b1 = 7 / 10" by simp_all
  with r have "snd (energy_derivative ?m (Finite 0) (PyBool True)) = Inr (- 51 / 20)" by simp
  with e fit show ?thesis by simp
qed

text \<open>
  C10 as stated fails at the pole: for the model fitted to \<open>{4: 6, 5: 4, 6: 3}\<close>,
  \<open>energy_derivative(2, True)\<close> raises \<open>ZeroDivisionError\<close>.
\<close>

theorem boolean_order_pole_counterexample:
  "RationalGlobalTool_init [(4, 6), (5, 4), (6, 3)]
     = Inr \<lparr>self_params = [- 6, 0, - 1 / 2], self_n0 = 5, self_n_max = PosInf\<rparr>
   \<and> snd (energy_derivative \<lparr>self_params = [- 6, 0, - 1 / 2], self_n0 = 5, self_n_max = PosInf\<rparr>
        (Finite 2) (PyBool True)) = Inl ZeroDivisionError"
  by (simp add: RationalGlobalTool_init_def keys_def lookup_def truediv_def
      BaseGlobalTool_init_def Let_def energy_derivative_def)

end
